theory Spec2Isabelle
  imports Complex_Main
begin

section \<open>Route precomputation: the data\<close>

text \<open>
  The development follows \<^verbatim>\<open>precompute_routes.py\<close>. Python's unbounded integers
  (retry counts, wait times, status codes) are natural numbers. A float is the rational
  number it stands for, and so is a time, as seconds since the epoch. The coordinates,
  durations and distances of a route are passed on as the service gives them, and the
  average speed of line 42 is their quotient itself, without the rounding of the float
  division. The arithmetic of lines 89 and 94 on floats and times rounds; its operations
  are a parameter of the model, introduced with the timestamps below.
\<close>

definition MAX_RETRIES :: nat where "MAX_RETRIES = 5"
definition INITIAL_WAIT :: nat where "INITIAL_WAIT = 1"
definition MAX_WAIT :: nat where "MAX_WAIT = 120"
definition CHUNK_SIZE :: nat where "CHUNK_SIZE = 1000"

text \<open>A coordinate is the pair \<^verbatim>\<open>[lng, lat]\<close>.\<close>

type_synonym coord = "rat \<times> rat"

text \<open>
  The route object of the service (\<^verbatim>\<open>route["geometry"]["coordinates"]\<close>,
  \<^verbatim>\<open>route["duration"]\<close>, \<^verbatim>\<open>route["distance"]\<close>), the dictionary that
  \<^verbatim>\<open>get_osrm_route\<close> builds from it, and the Feature that \<^verbatim>\<open>process_trip\<close> builds
  from that dictionary share their three fields, so each record extends the one before.
  The \<^verbatim>\<open>popup\<close> text of a Feature, a formatted rendering of the other fields, is left out.
  An entry of \<^verbatim>\<open>times\<close> is a string with the resolution of one second; it is represented
  by the whole number of seconds it denotes.
\<close>

record route =
  coordinates :: "coord list"
  duration :: rat
  distance :: rat

record route_data = route +
  average_speed :: rat

record feature = route_data +
  tripId :: nat
  times :: "int list"

record payload =
  code :: string
  routes :: "route list"

text \<open>
  What one \<^verbatim>\<open>session.get\<close> inside the \<^verbatim>\<open>try\<close> block comes to: the timeout exception,
  any other exception raised inside the block (a transport error, a body that is not
  JSON, a payload without the fields that are read), or a response with its status and,
  for the branch that reads it, its parsed payload.
\<close>

datatype outcome = Timeout | Failure | Response nat payload

text \<open>
  The three kinds of value that \<^verbatim>\<open>get_osrm_route\<close> returns: \<^verbatim>\<open>None\<close>, a dictionary,
  or a bare list of coordinates.
\<close>

datatype fetched = No_Route | Route_Dict route_data | Bare_List "coord list"

text \<open>The input and output operations of one fetch: the request and the backoff sleep.\<close>

datatype io = Get rat rat rat rat | Sleep nat

datatype error = TypeError | ZeroDivisionError | ValueError

text \<open>A row of the trip table, with the column names of the source; a missing cell is \<open>None\<close>.\<close>

record trip =
  trip_ID :: nat
  pickup_location_latitude :: "rat option"
  pickup_location_longitude :: "rat option"
  dropoff_location_latitude :: "rat option"
  dropoff_location_longitude :: "rat option"
  start_time_local :: rat
  end_time_local :: rat

text \<open>
  What the pipeline does to the world, in order: the operations of a trip's fetch, the
  write of the checkpoint file, the pause between chunks, the write of the output file
  and the removal of the checkpoint file.
\<close>

datatype event =
    Trip_IO nat io
  | Checkpoint_Write "feature list"
  | Chunk_Delay nat
  | Output_Write "feature list"
  | Checkpoint_Remove

text \<open>
  The two files, \<^verbatim>\<open>precomputed_routes_partial.json\<close> and \<^verbatim>\<open>precomputed_routes.json\<close>,
  each absent or holding the list under \<^verbatim>\<open>"features"\<close>, and the events so far.
\<close>

record files =
  checkpoint_file :: "feature list option"
  output_file :: "feature list option"
  log :: "event list"

section \<open>The fetch client\<close>

text \<open>Line 23: the exponential backoff.\<close>

definition wait_time :: "nat \<Rightarrow> nat" where
  "wait_time retry_count = min (INITIAL_WAIT * 2 ^ retry_count) MAX_WAIT"

text \<open>The straight line of lines 46 to 51, and the prefixing of the operations done before a retry.\<close>

definition direct_line :: "rat \<Rightarrow> rat \<Rightarrow> rat \<Rightarrow> rat \<Rightarrow> coord list" where
  "direct_line start_lng start_lat end_lng end_lat = [(start_lng, start_lat), (end_lng, end_lat)]"

definition after :: "io list \<Rightarrow> fetched \<times> io list \<Rightarrow> fetched \<times> io list" where
  "after pre r = (fst r, pre @ snd r)"

text \<open>
  \<^verbatim>\<open>get_osrm_route\<close>. The argument \<open>session\<close> gives, for each retry count, what the request
  issued with that count comes to. The result is the returned value with the operations
  performed, in order.
\<close>

function get_osrm_route ::
    "(nat \<Rightarrow> outcome) \<Rightarrow> rat \<Rightarrow> rat \<Rightarrow> rat \<Rightarrow> rat \<Rightarrow> nat \<Rightarrow> fetched \<times> io list" where
  "get_osrm_route session start_lng start_lat end_lng end_lat retry_count =
    (case session retry_count of
       Response status data \<Rightarrow>
         if status = 429 then
           if retry_count < MAX_RETRIES then
             after [Get start_lng start_lat end_lng end_lat, Sleep (wait_time retry_count)]
               (get_osrm_route session start_lng start_lat end_lng end_lat (retry_count + 1))
           else (No_Route, [Get start_lng start_lat end_lng end_lat])
         else if code data = ''Ok'' \<and> routes data \<noteq> [] \<and> coordinates (hd (routes data)) \<noteq> [] then
           (Route_Dict
              \<lparr>coordinates = coordinates (hd (routes data)),
               duration = duration (hd (routes data)),
               distance = distance (hd (routes data)),
               average_speed =
                 (if duration (hd (routes data)) > 0
                  then distance (hd (routes data)) / duration (hd (routes data)) else 0)\<rparr>,
            [Get start_lng start_lat end_lng end_lat])
         else
           (Route_Dict
              \<lparr>coordinates = direct_line start_lng start_lat end_lng end_lat,
               duration = 0, distance = 0, average_speed = 0\<rparr>,
            [Get start_lng start_lat end_lng end_lat])
     | Timeout \<Rightarrow>
         if retry_count < MAX_RETRIES then
           after [Get start_lng start_lat end_lng end_lat, Sleep (wait_time retry_count)]
             (get_osrm_route session start_lng start_lat end_lng end_lat (retry_count + 1))
         else (Bare_List (direct_line start_lng start_lat end_lng end_lat),
               [Get start_lng start_lat end_lng end_lat])
     | Failure \<Rightarrow>
         if retry_count < MAX_RETRIES then
           after [Get start_lng start_lat end_lng end_lat, Sleep (wait_time retry_count)]
             (get_osrm_route session start_lng start_lat end_lng end_lat (retry_count + 1))
         else (Bare_List (direct_line start_lng start_lat end_lng end_lat),
               [Get start_lng start_lat end_lng end_lat]))"
  by pat_completeness auto
termination
  by (relation "measure (\<lambda>(session, start_lng, start_lat, end_lng, end_lat, retry_count).
        MAX_RETRIES - retry_count)") auto

declare get_osrm_route.simps [simp del]

section \<open>Timestamps\<close>

text \<open>\<^verbatim>\<open>strftime("%Y-%m-%dT%H:%M:%S")\<close> keeps the whole seconds of a time and drops the rest.\<close>

definition strftime :: "rat \<Rightarrow> int" where
  "strftime t = \<lfloor>t\<rfloor>"

text \<open>
  The operations of lines 89 and 94 that round, as the Python runtime and pandas perform
  them. They are not code of this repository and are a parameter of the model:
  \<^item> \<open>total_seconds d\<close> is the float that \<^verbatim>\<open>total_seconds()\<close> returns for the
    duration of \<open>d\<close> seconds;
  \<^item> \<open>true_div i m\<close> is the float quotient \<^verbatim>\<open>i / m\<close> of two integers, \<open>m\<close> not zero;
  \<^item> \<open>float_mul x y\<close> is the float product \<^verbatim>\<open>x * y\<close>;
  \<^item> \<open>Timedelta x\<close> is the duration, in seconds, of \<^verbatim>\<open>pd.Timedelta(seconds=x)\<close>.
  Adding a duration to a time, and subtracting two times, is exact.
\<close>

record float_ops =
  total_seconds :: "rat \<Rightarrow> rat"
  true_div :: "nat \<Rightarrow> int \<Rightarrow> rat"
  float_mul :: "rat \<Rightarrow> rat \<Rightarrow> rat"
  Timedelta :: "rat \<Rightarrow> rat"

text \<open>
  Line 94: the time of point \<open>i\<close>. The quotient \<^verbatim>\<open>i / (num_points - 1)\<close> is evaluated
  first and raises when the divisor is zero.
\<close>

definition point_time :: "float_ops \<Rightarrow> rat \<Rightarrow> rat \<Rightarrow> nat \<Rightarrow> nat \<Rightarrow> error + rat" where
  "point_time ops start_time duration_seconds num_points i =
     (if int num_points - 1 = 0 then Inl ZeroDivisionError
      else Inr (start_time +
                Timedelta ops
                  (float_mul ops duration_seconds (true_div ops i (int num_points - 1)))))"

text \<open>Lines 92 to 95: the loop over \<^verbatim>\<open>range(num_points)\<close>, stopping at the first exception.\<close>

fun times_loop :: "float_ops \<Rightarrow> rat \<Rightarrow> rat \<Rightarrow> nat \<Rightarrow> nat list \<Rightarrow> error + int list" where
  "times_loop ops start_time duration_seconds num_points [] = Inr []"
| "times_loop ops start_time duration_seconds num_points (i # rest) =
     (case point_time ops start_time duration_seconds num_points i of
        Inl e \<Rightarrow> Inl e
      | Inr point \<Rightarrow>
          (case times_loop ops start_time duration_seconds num_points rest of
             Inl e \<Rightarrow> Inl e
           | Inr ts \<Rightarrow> Inr (strftime point # ts)))"

text \<open>Lines 89 to 95: the timestamps of a route of \<open>num_points\<close> points.\<close>

definition interpolate_times :: "float_ops \<Rightarrow> rat \<Rightarrow> rat \<Rightarrow> nat \<Rightarrow> error + int list" where
  "interpolate_times ops start_time end_time num_points =
     times_loop ops start_time (total_seconds ops (end_time - start_time)) num_points
       [0..<num_points]"

section \<open>One trip, one chunk\<close>

text \<open>
  Lines 74 to 84: the fetch that \<^verbatim>\<open>process_trip\<close> performs for a row, or none when a
  pickup coordinate is missing. The argument \<open>session\<close> gives, for each row and retry
  count, what the request for that row comes to.
\<close>

definition trip_fetch :: "(trip \<Rightarrow> nat \<Rightarrow> outcome) \<Rightarrow> trip \<Rightarrow> (fetched \<times> io list) option" where
  "trip_fetch session row =
     (case pickup_location_latitude row of
        None \<Rightarrow> None
      | Some pickup_lat \<Rightarrow>
          (case pickup_location_longitude row of
             None \<Rightarrow> None
           | Some pickup_lng \<Rightarrow>
               (let dropoff_lat =
                      (case dropoff_location_latitude row of Some v \<Rightarrow> v | None \<Rightarrow> pickup_lat);
                    dropoff_lng =
                      (case dropoff_location_longitude row of Some v \<Rightarrow> v | None \<Rightarrow> pickup_lng)
                in Some (get_osrm_route (session row) pickup_lng pickup_lat dropoff_lng dropoff_lat 0))))"

text \<open>
  Lines 86 to 118: what \<^verbatim>\<open>process_trip\<close> makes of the fetched value. \<^verbatim>\<open>None\<close> and
  the empty list are false in the test of line 86. A list that passes the test is then
  indexed with the string \<^verbatim>\<open>"coordinates"\<close> in line 91, which raises.
\<close>

definition make_feature :: "float_ops \<Rightarrow> trip \<Rightarrow> fetched \<Rightarrow> error + feature option" where
  "make_feature ops row fetched =
     (case fetched of
        No_Route \<Rightarrow> Inr None
      | Bare_List line \<Rightarrow> if line = [] then Inr None else Inl TypeError
      | Route_Dict d \<Rightarrow>
          (case interpolate_times ops (start_time_local row) (end_time_local row)
                  (length (coordinates d)) of
             Inl e \<Rightarrow> Inl e
           | Inr ts \<Rightarrow>
               Inr (Some \<lparr>coordinates = coordinates d, duration = duration d,
                          distance = distance d, average_speed = average_speed d,
                          tripId = trip_ID row, times = ts\<rparr>)))"

text \<open>
  \<^verbatim>\<open>process_trip\<close>: the returned Feature, \<^verbatim>\<open>None\<close> or the exception, with the
  operations performed, each tagged with the identifier of the trip.
\<close>

definition process_trip ::
    "float_ops \<Rightarrow> (trip \<Rightarrow> nat \<Rightarrow> outcome) \<Rightarrow> trip \<Rightarrow> (error + feature option) \<times> event list" where
  "process_trip ops session row =
     (case trip_fetch session row of
        None \<Rightarrow> (Inr None, [])
      | Some route_data \<Rightarrow>
          (make_feature ops row (fst route_data), map (Trip_IO (trip_ID row)) (snd route_data)))"

text \<open>
  \<^verbatim>\<open>asyncio.gather\<close>: the results in the order of the tasks, or the exception of a task
  that raised. When several tasks raise, which exception surfaces depends on timing; the
  model takes the first in the order of the tasks.
\<close>

fun gather :: "(error + 'a) list \<Rightarrow> error + 'a list" where
  "gather [] = Inr []"
| "gather (r # rs) =
     (case r of
        Inl e \<Rightarrow> Inl e
      | Inr v \<Rightarrow> (case gather rs of Inl e \<Rightarrow> Inl e | Inr vs \<Rightarrow> Inr (v # vs)))"

text \<open>
  \<^verbatim>\<open>process_chunk\<close>. The semaphore of lines 70 and 73 delays tasks and changes no
  result; it is not part of the model. The operations of the chunk are listed trip by
  trip, in the order of the rows; their real interleaving is the event loop's. When a task raises, the other
  tasks of the chunk are abandoned wherever they are: for such a chunk the list holds
  every operation its tasks would perform if left to finish.
\<close>

definition process_chunk ::
    "float_ops \<Rightarrow> (trip \<Rightarrow> nat \<Rightarrow> outcome) \<Rightarrow> trip list \<Rightarrow> (error + feature list) \<times> event list" where
  "process_chunk ops session chunk_data =
     (let tasks = map (process_trip ops session) chunk_data
      in (case gather (map fst tasks) of
            Inl e \<Rightarrow> Inl e
          | Inr results \<Rightarrow> Inr (map the (filter (\<lambda>f. f \<noteq> None) results)),
          concat (map snd tasks)))"

section \<open>Chunks, checkpoints and the driver\<close>

text \<open>\<^verbatim>\<open>range(0, stop, step)\<close> for a positive step, and the slices of line 149.\<close>

definition range_step :: "nat \<Rightarrow> nat \<Rightarrow> nat list" where
  "range_step stop step = map (\<lambda>k. k * step) [0..<(stop + step - 1) div step]"

definition chunks_of :: "nat \<Rightarrow> 'a list \<Rightarrow> 'a list list" where
  "chunks_of chunk_size trips_data =
     map (\<lambda>i. take chunk_size (drop i trips_data)) (range_step (length trips_data) chunk_size)"

text \<open>
  Lines 154 to 169: the loop over the chunks, \<open>i\<close> counting from 1. An exception of a
  chunk ends the run; the files stay as the chunks before it left them.
\<close>

fun chunk_loop ::
    "float_ops \<Rightarrow> (trip \<Rightarrow> nat \<Rightarrow> outcome) \<Rightarrow> nat \<Rightarrow> nat \<Rightarrow> trip list list \<Rightarrow> feature list \<Rightarrow>
       files \<Rightarrow> (error + feature list) \<times> files" where
  "chunk_loop ops session total_chunks i [] features fs = (Inr features, fs)"
| "chunk_loop ops session total_chunks i (chunk # rest) features fs =
     (case process_chunk ops session chunk of
        (Inl e, evs) \<Rightarrow> (Inl e, fs\<lparr>log := log fs @ evs\<rparr>)
      | (Inr chunk_features, evs) \<Rightarrow>
          chunk_loop ops session total_chunks (i + 1) rest (features @ chunk_features)
            (fs\<lparr>checkpoint_file := Some (features @ chunk_features),
                log := log fs @ evs @ [Checkpoint_Write (features @ chunk_features)] @
                       (if i < total_chunks then [Chunk_Delay 2] else [])\<rparr>))"

text \<open>Lines 134 to 140: the Features of the checkpoint file and the rows still to do.\<close>

definition resume :: "files \<Rightarrow> trip list \<Rightarrow> feature list \<times> trip list" where
  "resume fs trips_data =
     (case checkpoint_file fs of
        None \<Rightarrow> ([], trips_data)
      | Some features \<Rightarrow>
          (features, filter (\<lambda>row. trip_ID row \<notin> set (map tripId features)) trips_data))"

text \<open>
  \<^verbatim>\<open>process_trips\<close>, with the chunk size as a parameter; the source fixes it at
  \<open>CHUNK_SIZE\<close>. \<^verbatim>\<open>range\<close> raises on a step of zero.
\<close>

definition process_trips ::
    "float_ops \<Rightarrow> nat \<Rightarrow> (trip \<Rightarrow> nat \<Rightarrow> outcome) \<Rightarrow> trip list \<Rightarrow> files \<Rightarrow>
       (error + feature list) \<times> files" where
  "process_trips ops chunk_size session trips_data fs =
     (if chunk_size = 0 then (Inl ValueError, fs)
      else chunk_loop ops session (length (chunks_of chunk_size (snd (resume fs trips_data)))) 1
             (chunks_of chunk_size (snd (resume fs trips_data))) (fst (resume fs trips_data)) fs)"

text \<open>\<^verbatim>\<open>main\<close>, on the loaded trip table \<open>df\<close>.\<close>

definition main ::
    "float_ops \<Rightarrow> nat \<Rightarrow> (trip \<Rightarrow> nat \<Rightarrow> outcome) \<Rightarrow> trip list \<Rightarrow> files \<Rightarrow>
       (error + unit) \<times> files" where
  "main ops chunk_size session df fs =
     (case process_trips ops chunk_size session df fs of
        (Inl e, fs1) \<Rightarrow> (Inl e, fs1)
      | (Inr features, fs1) \<Rightarrow>
          (Inr (),
           (if checkpoint_file fs1 = None
            then fs1\<lparr>output_file := Some features, log := log fs1 @ [Output_Write features]\<rparr>
            else fs1\<lparr>checkpoint_file := None, output_file := Some features,
                     log := log fs1 @ [Output_Write features, Checkpoint_Remove]\<rparr>)))"

section \<open>Predicates on Features, events and files\<close>

text \<open>
  A Feature is aligned when it has as many timestamps as coordinates, and at least one.
  The files are aligned when every Feature in the checkpoint file, in the output file and
  in every collection written so far is.
\<close>

definition aligned :: "feature \<Rightarrow> bool" where
  "aligned f \<longleftrightarrow> length (times f) = length (coordinates f) \<and> 1 \<le> length (coordinates f)"

fun stored :: "feature list option \<Rightarrow> feature list" where
  "stored None = []"
| "stored (Some features) = features"

fun written :: "event \<Rightarrow> feature list" where
  "written (Checkpoint_Write features) = features"
| "written (Output_Write features) = features"
| "written (Trip_IO tid op) = []"
| "written (Chunk_Delay seconds) = []"
| "written Checkpoint_Remove = []"

definition files_aligned :: "files \<Rightarrow> bool" where
  "files_aligned fs \<longleftrightarrow>
     list_all aligned (stored (checkpoint_file fs)) \<and>
     list_all aligned (stored (output_file fs)) \<and>
     list_all (\<lambda>ev. list_all aligned (written ev)) (log fs)"

text \<open>
  The operations that do not round: each returns the exact value. Rounding changes
  nothing where the exact value is itself a float and a whole number of nanoseconds, as
  at the inputs these operations are used on below: trips of 10 or 100 seconds, in either
  direction, over two or three points, with the quotients 0, 1/2 and 1.
\<close>

definition unrounded :: float_ops where
  "unrounded =
     \<lparr>total_seconds = (\<lambda>d. d),
      true_div = (\<lambda>i m. of_nat i / of_int m),
      float_mul = (\<lambda>x y. x * y),
      Timedelta = (\<lambda>x. x)\<rparr>"


text \<open>The events that belong to the fetch of a trip, as opposed to those of the scheduler.\<close>

fun is_trip_io :: "event \<Rightarrow> bool" where
  "is_trip_io (Trip_IO tid op) = True"
| "is_trip_io (Checkpoint_Write features) = False"
| "is_trip_io (Chunk_Delay seconds) = False"
| "is_trip_io (Output_Write features) = False"
| "is_trip_io Checkpoint_Remove = False"

section \<open>The fetch client: one step per kind of answer\<close>

lemma get_osrm_route_rate_limited:
  "session k = Response 429 data \<Longrightarrow>
   get_osrm_route session a b c d k =
     (if k < MAX_RETRIES
      then after [Get a b c d, Sleep (wait_time k)] (get_osrm_route session a b c d (k + 1))
      else (No_Route, [Get a b c d]))"
  by (subst get_osrm_route.simps) simp

lemma get_osrm_route_timeout:
  "session k = Timeout \<Longrightarrow>
   get_osrm_route session a b c d k =
     (if k < MAX_RETRIES
      then after [Get a b c d, Sleep (wait_time k)] (get_osrm_route session a b c d (k + 1))
      else (Bare_List (direct_line a b c d), [Get a b c d]))"
  by (subst get_osrm_route.simps) simp

lemma get_osrm_route_answered:
  "session k = Response status data \<Longrightarrow> status \<noteq> 429 \<Longrightarrow>
   get_osrm_route session a b c d k =
     (if code data = ''Ok'' \<and> routes data \<noteq> [] \<and> coordinates (hd (routes data)) \<noteq> []
      then (Route_Dict
              \<lparr>coordinates = coordinates (hd (routes data)),
               duration = duration (hd (routes data)),
               distance = distance (hd (routes data)),
               average_speed =
                 (if duration (hd (routes data)) > 0
                  then distance (hd (routes data)) / duration (hd (routes data)) else 0)\<rparr>,
            [Get a b c d])
      else (Route_Dict
              \<lparr>coordinates = direct_line a b c d,
               duration = 0, distance = 0, average_speed = 0\<rparr>,
            [Get a b c d]))"
  by (subst get_osrm_route.simps) simp

lemma wait_time_values:
  "wait_time 0 = 1" "wait_time (Suc 0) = 2" "wait_time 2 = 4" "wait_time 3 = 8" "wait_time 4 = 16"
  by (simp_all add: wait_time_def INITIAL_WAIT_def MAX_WAIT_def)

section \<open>The backoff policy\<close>

text \<open>
  Claim C9. For every attempt number, counted from 0, the wait is
  \<open>min (INITIAL_WAIT * 2 ^ attempt) MAX_WAIT\<close>. With the constants of the source this is
  \<open>2 ^ attempt\<close> seconds for the attempts 0 to 6 and 120 seconds from attempt 7 on. The
  wait is a function of the attempt number alone, so equal attempts wait equally long.
\<close>

theorem backoff_policy:
  "wait_time attempt = min (INITIAL_WAIT * 2 ^ attempt) MAX_WAIT \<and>
   wait_time attempt = (if attempt < 7 then 2 ^ attempt else 120)"
proof (cases "attempt < 7")
  case True
  then have "attempt \<in> {0, 1, 2, 3, 4, 5, 6}" by auto
  then show ?thesis
    by (auto simp add: wait_time_def INITIAL_WAIT_def MAX_WAIT_def)
next
  case False
  then have "(2::nat) ^ 7 \<le> 2 ^ attempt"
    by (intro power_increasing) simp_all
  with False show ?thesis
    by (simp add: wait_time_def INITIAL_WAIT_def MAX_WAIT_def)
qed

section \<open>A response without a usable route\<close>

text \<open>
  Claim C10. When a request is answered with a status other than 429 and a payload whose
  code is not \<open>Ok\<close>, or whose list of routes is empty, or whose first route has no
  coordinates, the fetch returns at once the two-point line from origin to destination
  with duration, distance and average speed 0. It has issued that one request and has
  not slept or retried. Nothing is asked of the status beyond its not being 429, so a
  server-error status is treated in the same way.
\<close>

theorem no_usable_route_gives_direct_line:
  assumes "session retry_count = Response status data"
    and "status \<noteq> 429"
    and "code data \<noteq> ''Ok'' \<or> routes data = [] \<or> coordinates (hd (routes data)) = []"
  shows "get_osrm_route session start_lng start_lat end_lng end_lat retry_count =
           (Route_Dict \<lparr>coordinates = [(start_lng, start_lat), (end_lng, end_lat)],
                        duration = 0, distance = 0, average_speed = 0\<rparr>,
            [Get start_lng start_lat end_lng end_lat])"
  using assms by (auto simp add: get_osrm_route_answered direct_line_def)

theorem no_usable_route_gives_direct_line_witness:
  "get_osrm_route (\<lambda>k. Response 500 \<lparr>code = ''InternalError'', routes = []\<rparr>) 1 2 3 4 0 =
     (Route_Dict \<lparr>coordinates = [(1, 2), (3, 4)], duration = 0, distance = 0, average_speed = 0\<rparr>,
      [Get 1 2 3 4]) \<and>
   get_osrm_route
       (\<lambda>k. Response 200
          \<lparr>code = ''Ok'', routes = [\<lparr>coordinates = [], duration = 7, distance = 9\<rparr>]\<rparr>)
       1 2 3 4 2 =
     (Route_Dict \<lparr>coordinates = [(1, 2), (3, 4)], duration = 0, distance = 0, average_speed = 0\<rparr>,
      [Get 1 2 3 4])"
  using no_usable_route_gives_direct_line
    [of "\<lambda>k. Response 500 \<lparr>code = ''InternalError'', routes = []\<rparr>" 0 500
        "\<lparr>code = ''InternalError'', routes = []\<rparr>" 1 2 3 4]
    no_usable_route_gives_direct_line
    [of "\<lambda>k. Response 200
           \<lparr>code = ''Ok'', routes = [\<lparr>coordinates = [], duration = 7, distance = 9\<rparr>]\<rparr>" 2 200
        "\<lparr>code = ''Ok'', routes = [\<lparr>coordinates = [], duration = 7, distance = 9\<rparr>]\<rparr>" 1 2 3 4]
  by simp


section \<open>Rate limiting\<close>

lemma gather_append:
  "gather (xs @ ys) =
     (case gather xs of
        Inl e \<Rightarrow> Inl e
      | Inr vs \<Rightarrow> (case gather ys of Inl e \<Rightarrow> Inl e | Inr ws \<Rightarrow> Inr (vs @ ws)))"
  by (induction xs) (auto split: sum.splits)

lemma process_trip_skipped:
  "trip_fetch session row = None \<Longrightarrow> process_trip ops session row = (Inr None, [])"
  by (simp add: process_trip_def)

lemma process_trip_dropped:
  "trip_fetch session row = Some (No_Route, ios) \<Longrightarrow> fst (process_trip ops session row) = Inr None"
  by (simp add: process_trip_def make_feature_def)

lemma process_chunk_without_feature:
  assumes "fst (process_trip ops session row) = Inr None"
  shows "fst (process_chunk ops session (before @ row # rest)) =
         fst (process_chunk ops session (before @ rest))"
  using assms
  by (simp add: process_chunk_def Let_def gather_append split: sum.splits)

lemma rate_limited_run:
  assumes "\<forall>k. \<exists>data. session k = Response 429 data"
  shows "get_osrm_route session a b c d 0 =
           (No_Route,
            [Get a b c d, Sleep 1, Get a b c d, Sleep 2, Get a b c d, Sleep 4,
             Get a b c d, Sleep 8, Get a b c d, Sleep 16, Get a b c d])"
proof -
  have step: "get_osrm_route session a b c d k =
     (if k < MAX_RETRIES
      then after [Get a b c d, Sleep (wait_time k)] (get_osrm_route session a b c d (k + 1))
      else (No_Route, [Get a b c d]))" for k
    using assms get_osrm_route_rate_limited by blast
  have 5: "get_osrm_route session a b c d 5 = (No_Route, [Get a b c d])"
    by (subst step) (simp add: MAX_RETRIES_def)
  have 4: "get_osrm_route session a b c d 4 = (No_Route, [Get a b c d, Sleep 16, Get a b c d])"
    by (subst step) (simp add: MAX_RETRIES_def after_def wait_time_values 5)
  have 3: "get_osrm_route session a b c d 3 =
      (No_Route, [Get a b c d, Sleep 8, Get a b c d, Sleep 16, Get a b c d])"
    by (subst step) (simp add: MAX_RETRIES_def after_def wait_time_values 4)
  have 2: "get_osrm_route session a b c d 2 =
      (No_Route, [Get a b c d, Sleep 4, Get a b c d, Sleep 8, Get a b c d, Sleep 16, Get a b c d])"
    by (subst step) (simp add: MAX_RETRIES_def after_def wait_time_values 3)
  have 1: "get_osrm_route session a b c d (Suc 0) =
      (No_Route, [Get a b c d, Sleep 2, Get a b c d, Sleep 4, Get a b c d, Sleep 8,
                  Get a b c d, Sleep 16, Get a b c d])"
    by (subst step) (simp add: MAX_RETRIES_def after_def wait_time_values 2 [unfolded numeral_2_eq_2])
  show ?thesis
    by (subst step) (simp add: MAX_RETRIES_def after_def wait_time_values 1)
qed

text \<open>
  Claim C6. When every attempt of a fetch is answered with status 429, each attempt with
  a retry count below \<open>MAX_RETRIES\<close> sleeps for the backoff wait of that count and goes
  on with the count plus one; the attempt with count \<open>MAX_RETRIES\<close> returns \<^verbatim>\<open>None\<close>.
  Started at 0 the fetch therefore issues six requests, with sleeps of 1, 2, 4, 8 and 16
  seconds between them, and returns \<^verbatim>\<open>None\<close>. A trip whose fetch returns \<^verbatim>\<open>None\<close>
  yields no Feature, and a chunk yields the same Features, or the same exception, with
  that trip as without it.
\<close>

theorem rate_limit_exhaustion_drops_the_trip:
  "((\<forall>k. \<exists>data. session k = Response 429 data) \<longrightarrow>
      (\<forall>k<MAX_RETRIES.
         get_osrm_route session a b c d k =
           after [Get a b c d, Sleep (wait_time k)] (get_osrm_route session a b c d (k + 1))) \<and>
      get_osrm_route session a b c d MAX_RETRIES = (No_Route, [Get a b c d]) \<and>
      get_osrm_route session a b c d 0 =
        (No_Route,
         [Get a b c d, Sleep 1, Get a b c d, Sleep 2, Get a b c d, Sleep 4,
          Get a b c d, Sleep 8, Get a b c d, Sleep 16, Get a b c d])) \<and>
   (trip_fetch net row = Some (No_Route, ios) \<longrightarrow>
      fst (process_trip ops net row) = Inr None \<and>
      fst (process_chunk ops net (before @ row # rest)) = fst (process_chunk ops net (before @ rest)))"
proof (intro conjI impI allI)
  fix k
  assume "\<forall>k. \<exists>data. session k = Response 429 data" and "k < MAX_RETRIES"
  then show "get_osrm_route session a b c d k =
      after [Get a b c d, Sleep (wait_time k)] (get_osrm_route session a b c d (k + 1))"
    using get_osrm_route_rate_limited [of session k _ a b c d] by (metis (full_types))
next
  assume "\<forall>k. \<exists>data. session k = Response 429 data"
  then obtain data where "session MAX_RETRIES = Response 429 data" by blast
  then show "get_osrm_route session a b c d MAX_RETRIES = (No_Route, [Get a b c d])"
    by (simp add: get_osrm_route_rate_limited)
next
  assume "\<forall>k. \<exists>data. session k = Response 429 data"
  then show "get_osrm_route session a b c d 0 =
        (No_Route,
         [Get a b c d, Sleep 1, Get a b c d, Sleep 2, Get a b c d, Sleep 4,
          Get a b c d, Sleep 8, Get a b c d, Sleep 16, Get a b c d])"
    by (rule rate_limited_run)
next
  assume "trip_fetch net row = Some (No_Route, ios)"
  then show "fst (process_trip ops net row) = Inr None"
    by (rule process_trip_dropped)
next
  assume "trip_fetch net row = Some (No_Route, ios)"
  then have "fst (process_trip ops net row) = Inr None"
    by (rule process_trip_dropped)
  then show "fst (process_chunk ops net (before @ row # rest)) = fst (process_chunk ops net (before @ rest))"
    by (rule process_chunk_without_feature)
qed

theorem rate_limit_exhaustion_drops_the_trip_witness:
  "get_osrm_route (\<lambda>k. Response 429 \<lparr>code = [], routes = []\<rparr>) 6 5 8 7 0 =
     (No_Route,
      [Get 6 5 8 7, Sleep 1, Get 6 5 8 7, Sleep 2, Get 6 5 8 7, Sleep 4,
       Get 6 5 8 7, Sleep 8, Get 6 5 8 7, Sleep 16, Get 6 5 8 7]) \<and>
   fst (process_trip unrounded (\<lambda>row k. Response 429 \<lparr>code = [], routes = []\<rparr>)
          \<lparr>trip_ID = 1, pickup_location_latitude = Some 5, pickup_location_longitude = Some 6,
           dropoff_location_latitude = Some 7, dropoff_location_longitude = Some 8,
           start_time_local = 0, end_time_local = 100\<rparr>) = Inr None \<and>
   fst (process_chunk unrounded (\<lambda>row k. Response 429 \<lparr>code = [], routes = []\<rparr>)
          [\<lparr>trip_ID = 1, pickup_location_latitude = Some 5, pickup_location_longitude = Some 6,
            dropoff_location_latitude = Some 7, dropoff_location_longitude = Some 8,
            start_time_local = 0, end_time_local = 100\<rparr>]) = Inr []"
proof -
  let ?session = "\<lambda>k::nat. Response 429 \<lparr>code = [], routes = []\<rparr>"
  let ?row = "\<lparr>trip_ID = 1, pickup_location_latitude = Some 5, pickup_location_longitude = Some 6,
           dropoff_location_latitude = Some 7, dropoff_location_longitude = Some 8,
           start_time_local = 0, end_time_local = 100\<rparr>"
  let ?ios = "[Get 6 5 8 7, Sleep 1, Get 6 5 8 7, Sleep 2, Get 6 5 8 7, Sleep 4,
       Get 6 5 8 7, Sleep 8, Get 6 5 8 7, Sleep 16, Get 6 5 8 7]"
  have limited: "\<forall>k. \<exists>data. ?session k = Response 429 data"
    by simp
  have fetch: "trip_fetch (\<lambda>row. ?session) ?row = Some (No_Route, ?ios)"
    by (simp add: trip_fetch_def rate_limited_run [OF limited])
  show ?thesis
    using rate_limit_exhaustion_drops_the_trip
            [of ?session 6 5 8 7 "\<lambda>row. ?session" ?row ?ios unrounded "[]" "[]"] limited fetch
    by (simp add: process_chunk_def)
qed


section \<open>The loop over the points of a route\<close>

lemma times_loop_defined:
  "num_points \<noteq> 1 \<Longrightarrow>
   times_loop ops start_time duration_seconds num_points indices =
     Inr (map (\<lambda>i. strftime (start_time +
                               Timedelta ops
                                 (float_mul ops duration_seconds
                                    (true_div ops i (int num_points - 1)))))
            indices)"
  by (induction indices) (simp_all add: point_time_def)

lemma interpolate_times_defined:
  "num_points \<noteq> 1 \<Longrightarrow>
   interpolate_times ops start_time end_time num_points =
     Inr (map (\<lambda>i. strftime (start_time +
                               Timedelta ops
                                 (float_mul ops (total_seconds ops (end_time - start_time))
                                    (true_div ops i (int num_points - 1)))))
            [0..<num_points])"
  by (simp add: interpolate_times_def times_loop_defined)

lemma interpolate_times_single_point:
  "interpolate_times ops start_time end_time (Suc 0) = Inl ZeroDivisionError"
  by (simp add: interpolate_times_def point_time_def)

lemma interpolate_times_result:
  assumes "interpolate_times ops start_time end_time num_points = Inr ts"
  shows "num_points \<noteq> 1 \<and>
         ts = map (\<lambda>i. strftime (start_time +
                               Timedelta ops
                                 (float_mul ops (total_seconds ops (end_time - start_time))
                                    (true_div ops i (int num_points - 1)))))
                [0..<num_points]"
proof (cases "num_points = 1")
  case True
  with assms show ?thesis by (simp add: interpolate_times_single_point)
next
  case False
  with assms show ?thesis by (simp add: interpolate_times_defined)
qed

lemma unrounded_simps:
  "total_seconds unrounded d = d" "true_div unrounded i m = of_nat i / of_int m"
  "float_mul unrounded x y = x * y" "Timedelta unrounded x = x"
  by (simp_all add: unrounded_def)

section \<open>The timestamp interpolator\<close>

text \<open>
  Line 94 with floats as they are. When the quotient \<open>7 / 10\<close> and its product with 90
  seconds are the nearest floats, and the duration is cut to whole nanoseconds, point 7
  of 11 on a trip from second 0 to second 90 falls just short of second 63 and is
  written as second 62.
\<close>

lemma rounded_product_falls_short:
  assumes "total_seconds ops 90 = 90"
    and "true_div ops 7 10 = 3152519739159347 / 4503599627370496"
    and "float_mul ops 90 (3152519739159347 / 4503599627370496) =
           8866461766385663 / 140737488355328"
    and "Timedelta ops (8866461766385663 / 140737488355328) = 62999999999 / 1000000000"
  shows "point_time ops 0 (total_seconds ops (90 - 0)) 11 7 = Inr (62999999999 / 1000000000)"
    and "strftime (62999999999 / 1000000000) = 62"
proof -
  have "point_time ops 0 (total_seconds ops (90 - 0)) 11 7 =
          Inr (Timedelta ops (float_mul ops (total_seconds ops 90) (true_div ops 7 10)))"
    by (simp add: point_time_def)
  then show "point_time ops 0 (total_seconds ops (90 - 0)) 11 7 = Inr (62999999999 / 1000000000)"
    by (simp only: assms)
  show "strftime (62999999999 / 1000000000) = 62"
    unfolding strftime_def by (rule floor_unique) simp_all
qed




section \<open>The Features of a trip and of a chunk\<close>

lemma get_osrm_route_failure:
  "session k = Failure \<Longrightarrow>
   get_osrm_route session a b c d k =
     (if k < MAX_RETRIES
      then after [Get a b c d, Sleep (wait_time k)] (get_osrm_route session a b c d (k + 1))
      else (Bare_List (direct_line a b c d), [Get a b c d]))"
  by (subst get_osrm_route.simps) simp

lemma get_osrm_route_coordinates:
  "fst (get_osrm_route session a b c d k) = Route_Dict r \<Longrightarrow> coordinates r \<noteq> []"
proof (induction session a b c d k rule: get_osrm_route.induct)
  case (1 session a b c d k)
  show ?case
  proof (cases "session k")
    case Timeout
    with 1 show ?thesis
      by (auto simp add: get_osrm_route_timeout after_def split: if_splits)
  next
    case Failure
    with 1 show ?thesis
      by (auto simp add: get_osrm_route_failure after_def split: if_splits)
  next
    case (Response status data)
    show ?thesis
    proof (cases "status = 429")
      case True
      with Response 1 show ?thesis
        by (auto simp add: get_osrm_route_rate_limited after_def split: if_splits)
    next
      case False
      with Response "1.prems" show ?thesis
        by (auto simp add: get_osrm_route_answered direct_line_def split: if_splits)
    qed
  qed
qed

lemma trip_fetch_coordinates:
  assumes "trip_fetch session row = Some (Route_Dict r, ios)"
  shows "coordinates r \<noteq> []"
proof -
  from assms obtain a b c d where "get_osrm_route (session row) a b c d 0 = (Route_Dict r, ios)"
    by (auto simp add: trip_fetch_def Let_def split: option.splits)
  then have "fst (get_osrm_route (session row) a b c d 0) = Route_Dict r"
    by simp
  then show ?thesis
    by (rule get_osrm_route_coordinates)
qed

lemma process_trip_feature:
  assumes "fst (process_trip ops session row) = Inr (Some f)"
  shows "tripId f = trip_ID row \<and> coordinates f \<noteq> [] \<and>
         interpolate_times ops (start_time_local row) (end_time_local row) (length (coordinates f)) =
           Inr (times f)"
proof -
  from assms obtain fetched ios where fetch: "trip_fetch session row = Some (fetched, ios)"
    and made: "make_feature ops row fetched = Inr (Some f)"
    by (auto simp add: process_trip_def split: option.splits)
  from made obtain r where r: "fetched = Route_Dict r"
    and ts: "interpolate_times ops (start_time_local row) (end_time_local row)
               (length (coordinates r)) = Inr (times f)"
    and f: "coordinates f = coordinates r" "tripId f = trip_ID row"
    by (auto simp add: make_feature_def split: fetched.splits if_splits sum.splits)
  from fetch r have "coordinates r \<noteq> []"
    by (auto dest: trip_fetch_coordinates)
  with ts f show ?thesis by simp
qed

lemma gather_result: "gather rs = Inr vs \<Longrightarrow> rs = map Inr vs"
  by (induction rs arbitrary: vs) (auto split: sum.splits)

lemma process_chunk_feature:
  assumes "fst (process_chunk ops session chunk_data) = Inr features" and "f \<in> set features"
  shows "\<exists>row \<in> set chunk_data. fst (process_trip ops session row) = Inr (Some f)"
proof -
  from assms(1) obtain results
    where results: "gather (map fst (map (process_trip ops session) chunk_data)) = Inr results"
      and features: "features = map the (filter (\<lambda>f. f \<noteq> None) results)"
    by (auto simp add: process_chunk_def Let_def split: sum.splits)
  from features assms(2) have "Some f \<in> set results"
    by auto
  moreover from results have "map fst (map (process_trip ops session) chunk_data) = map Inr results"
    by (rule gather_result)
  ultimately have "Inr (Some f) \<in> set (map fst (map (process_trip ops session) chunk_data))"
    by simp
  then show ?thesis
    by auto
qed

lemma feature_times:
  assumes "fst (process_trip ops session row) = Inr (Some f)"
  shows "2 \<le> length (coordinates f) \<and>
         times f =
           map (\<lambda>i. strftime (start_time_local row +
                               Timedelta ops
                                 (float_mul ops
                                    (total_seconds ops (end_time_local row - start_time_local row))
                                    (true_div ops i (int (length (coordinates f)) - 1)))))
             [0..<length (coordinates f)]"
proof -
  from process_trip_feature [OF assms]
  have nonempty: "coordinates f \<noteq> []"
    and ts: "interpolate_times ops (start_time_local row) (end_time_local row)
               (length (coordinates f)) = Inr (times f)"
    by simp_all
  from interpolate_times_result [OF ts] have several: "length (coordinates f) \<noteq> 1"
    and eq: "times f =
           map (\<lambda>i. strftime (start_time_local row +
                               Timedelta ops
                                 (float_mul ops
                                    (total_seconds ops (end_time_local row - start_time_local row))
                                    (true_div ops i (int (length (coordinates f)) - 1)))))
             [0..<length (coordinates f)]"
    by simp_all
  from nonempty have "length (coordinates f) \<noteq> 0"
    by simp
  with several have "2 \<le> length (coordinates f)"
    by arith
  with eq show ?thesis by simp
qed


section \<open>First, last and order of the timestamps\<close>



text \<open>
  The last timestamp with floats as they are. When the float seconds of a trip from
  0.019 s to 2 s are the float next below 1.981, and the duration is cut to whole
  nanoseconds, the last point of the route falls one nanosecond short of the end time and
  is written as second 1, where the end time is written as second 2.
\<close>

lemma rounded_duration_falls_short:
  assumes "total_seconds ops (1981 / 1000) = 1115203857727619 / 562949953421312"
    and "true_div ops 1 1 = 1"
    and "float_mul ops (1115203857727619 / 562949953421312) 1 = 1115203857727619 / 562949953421312"
    and "Timedelta ops (1115203857727619 / 562949953421312) = 1980999999 / 1000000000"
  shows "point_time ops (19 / 1000) (total_seconds ops (2 - 19 / 1000)) 2 1 =
           Inr (1999999999 / 1000000000)"
    and "strftime (1999999999 / 1000000000) = 1" and "strftime 2 = 2"
proof -
  have "point_time ops (19 / 1000) (total_seconds ops (2 - 19 / 1000)) 2 1 =
          Inr (19 / 1000 +
               Timedelta ops (float_mul ops (total_seconds ops (1981 / 1000)) (true_div ops 1 1)))"
    by (simp add: point_time_def)
  then have "point_time ops (19 / 1000) (total_seconds ops (2 - 19 / 1000)) 2 1 =
          Inr (19 / 1000 + 1980999999 / 1000000000)"
    by (simp only: assms)
  then show "point_time ops (19 / 1000) (total_seconds ops (2 - 19 / 1000)) 2 1 =
      Inr (1999999999 / 1000000000)"
    by simp
  show "strftime (1999999999 / 1000000000) = 1"
    unfolding strftime_def by (rule floor_unique) simp_all
  show "strftime 2 = 2"
    by (simp add: strftime_def)
qed




section \<open>Times and coordinates of equal length\<close>

lemma process_trip_aligned:
  assumes "fst (process_trip ops session row) = Inr (Some f)"
  shows "aligned f"
  using feature_times [OF assms] by (simp add: aligned_def)

lemma process_trip_events:
  "ev \<in> set (snd (process_trip ops session row)) \<Longrightarrow> \<exists>op. ev = Trip_IO (trip_ID row) op"
  by (auto simp add: process_trip_def split: option.splits)

lemma process_chunk_events:
  "ev \<in> set (snd (process_chunk ops session chunk_data)) \<Longrightarrow>
   \<exists>row \<in> set chunk_data. \<exists>op. ev = Trip_IO (trip_ID row) op"
proof -
  assume "ev \<in> set (snd (process_chunk ops session chunk_data))"
  then obtain row where "row \<in> set chunk_data" and "ev \<in> set (snd (process_trip ops session row))"
    by (auto simp add: process_chunk_def Let_def)
  with process_trip_events [of ev ops session row] show ?thesis
    by blast
qed

lemma process_chunk_aligned:
  assumes "fst (process_chunk ops session chunk_data) = Inr features"
  shows "list_all aligned features"
  unfolding list_all_iff
proof
  fix f assume "f \<in> set features"
  from process_chunk_feature [OF assms this] show "aligned f"
    by (auto dest: process_trip_aligned)
qed

lemma process_chunk_writes_nothing:
  "list_all (\<lambda>ev. list_all aligned (written ev)) (snd (process_chunk ops session chunk_data))"
  unfolding list_all_iff by (auto dest!: process_chunk_events)

lemma chunk_loop_aligned:
  assumes "files_aligned fs" and "list_all aligned features"
  shows "files_aligned (snd (chunk_loop ops session total_chunks i chunks features fs)) \<and>
         (\<forall>result. fst (chunk_loop ops session total_chunks i chunks features fs) = Inr result \<longrightarrow>
            list_all aligned result)"
  using assms
proof (induction chunks arbitrary: i features fs)
  case Nil
  then show ?case by simp
next
  case (Cons chunk rest)
  obtain r evs where chunk: "process_chunk ops session chunk = (r, evs)"
    by (cases "process_chunk ops session chunk")
  have evs: "list_all (\<lambda>ev. list_all aligned (written ev)) evs"
    using process_chunk_writes_nothing [of ops session chunk] chunk by simp
  show ?case
  proof (cases r)
    case (Inl e)
    with chunk Cons.prems evs show ?thesis
      by (simp add: files_aligned_def)
  next
    case (Inr chunk_features)
    with chunk have "list_all aligned chunk_features"
      using process_chunk_aligned [of ops session chunk chunk_features] by simp
    with Cons.prems have all: "list_all aligned (features @ chunk_features)"
      by simp
    let ?fs = "fs\<lparr>checkpoint_file := Some (features @ chunk_features),
                log := log fs @ evs @ [Checkpoint_Write (features @ chunk_features)] @
                       (if i < total_chunks then [Chunk_Delay 2] else [])\<rparr>"
    from Cons.prems(1) evs all have "files_aligned ?fs"
      by (simp add: files_aligned_def)
    from Cons.IH [OF this all, of "i + 1"] chunk Inr show ?thesis
      by simp
  qed
qed

lemma process_trips_aligned:
  assumes "files_aligned fs"
  shows "files_aligned (snd (process_trips ops chunk_size session trips_data fs)) \<and>
         (\<forall>result. fst (process_trips ops chunk_size session trips_data fs) = Inr result \<longrightarrow>
            list_all aligned result)"
proof (cases "chunk_size = 0")
  case True
  with assms show ?thesis by (simp add: process_trips_def)
next
  case False
  from assms have "list_all aligned (fst (resume fs trips_data))"
    by (auto simp add: resume_def files_aligned_def split: option.splits)
  from chunk_loop_aligned [OF assms this] False show ?thesis
    by (simp add: process_trips_def)
qed

text \<open>
  Claim C4. Every Feature that a chunk yields has as many timestamps as coordinates, and
  at least one. A run of the pipeline keeps the files aligned: starting from aligned
  files, and so from no files at all, every Feature in every checkpoint written, in the
  checkpoint file and in the output file is aligned, whether the run ends or raises.
\<close>

theorem times_match_coordinates:
  "(fst (process_chunk ops session chunk_data) = Inr features \<longrightarrow> list_all aligned features) \<and>
   (files_aligned fs \<longrightarrow> files_aligned (snd (main ops chunk_size session df fs)))"
proof (intro conjI impI)
  assume "fst (process_chunk ops session chunk_data) = Inr features"
  then show "list_all aligned features"
    by (rule process_chunk_aligned)
next
  assume ok: "files_aligned fs"
  obtain r fs1 where run: "process_trips ops chunk_size session df fs = (r, fs1)"
    by (cases "process_trips ops chunk_size session df fs")
  from process_trips_aligned [OF ok, of ops chunk_size session df] run
  have fs1: "files_aligned fs1" and r: "\<forall>result. r = Inr result \<longrightarrow> list_all aligned result"
    by simp_all
  show "files_aligned (snd (main ops chunk_size session df fs))"
  proof (cases r)
    case (Inl e)
    with run fs1 show ?thesis by (simp add: main_def)
  next
    case (Inr result)
    with r have "list_all aligned result" by simp
    with run Inr fs1 show ?thesis
      by (simp add: main_def files_aligned_def)
  qed
qed

theorem times_match_coordinates_witness:
  "fst (process_chunk unrounded
          (\<lambda>row k. Response 200
             \<lparr>code = ''Ok'',
              routes = [\<lparr>coordinates = [(0, 0), (1, 1), (2, 2)], duration = 60, distance = 300\<rparr>]\<rparr>)
          [\<lparr>trip_ID = 3, pickup_location_latitude = Some 0, pickup_location_longitude = Some 0,
            dropoff_location_latitude = Some 2, dropoff_location_longitude = Some 2,
            start_time_local = 0, end_time_local = 100\<rparr>]) =
     Inr [\<lparr>coordinates = [(0, 0), (1, 1), (2, 2)], duration = 60, distance = 300,
           average_speed = 5, tripId = 3, times = [0, 50, 100]\<rparr>] \<and>
   list_all aligned
     [\<lparr>coordinates = [(0, 0), (1, 1), (2, 2)], duration = 60, distance = 300,
       average_speed = 5, tripId = 3, times = [0, 50, 100]\<rparr>] \<and>
   files_aligned \<lparr>checkpoint_file = None, output_file = None, log = []\<rparr> \<and>
   files_aligned
     (snd (main unrounded CHUNK_SIZE
        (\<lambda>row k. Response 200
           \<lparr>code = ''Ok'',
            routes = [\<lparr>coordinates = [(0, 0), (1, 1), (2, 2)], duration = 60, distance = 300\<rparr>]\<rparr>)
        [\<lparr>trip_ID = 3, pickup_location_latitude = Some 0, pickup_location_longitude = Some 0,
          dropoff_location_latitude = Some 2, dropoff_location_longitude = Some 2,
          start_time_local = 0, end_time_local = 100\<rparr>]
        \<lparr>checkpoint_file = None, output_file = None, log = []\<rparr>))"
proof -
  let ?session = "\<lambda>(row::trip) (k::nat). Response 200
             \<lparr>code = ''Ok'',
              routes = [\<lparr>coordinates = [(0, 0), (1, 1), (2, 2)], duration = 60, distance = 300\<rparr>]\<rparr>"
  let ?row = "\<lparr>trip_ID = 3, pickup_location_latitude = Some 0, pickup_location_longitude = Some 0,
            dropoff_location_latitude = Some 2, dropoff_location_longitude = Some 2,
            start_time_local = 0, end_time_local = 100\<rparr>"
  let ?f = "\<lparr>coordinates = [(0, 0), (1, 1), (2, 2)], duration = 60, distance = 300,
           average_speed = 5, tripId = 3, times = [0, 50, 100]\<rparr>"
  let ?fs = "\<lparr>checkpoint_file = None, output_file = None, log = []\<rparr>"
  have run: "fst (process_chunk unrounded ?session [?row]) = Inr [?f]"
    by (simp add: process_chunk_def process_trip_def trip_fetch_def get_osrm_route_answered
          make_feature_def interpolate_times_defined strftime_def unrounded_simps upt_rec)
  have fresh: "files_aligned ?fs"
    by (simp add: files_aligned_def)
  from times_match_coordinates [of unrounded ?session "[?row]" "[?f]" ?fs CHUNK_SIZE "[?row]"] run fresh
  show ?thesis
    by simp
qed


section \<open>Resuming from a checkpoint\<close>

lemma chunks_of_rows: "set (concat (chunks_of chunk_size rows)) \<subseteq> set rows"
  by (auto simp add: chunks_of_def dest!: in_set_takeD in_set_dropD)

lemma chunk_loop_log:
  "\<exists>new. log (snd (chunk_loop ops session total_chunks i chunks features fs)) = log fs @ new \<and>
         (\<forall>tid op. Trip_IO tid op \<in> set new \<longrightarrow> tid \<in> trip_ID ` set (concat chunks))"
proof (induction chunks arbitrary: i features fs)
  case Nil
  then show ?case by simp
next
  case (Cons chunk rest)
  obtain r evs where chunk: "process_chunk ops session chunk = (r, evs)"
    by (cases "process_chunk ops session chunk")
  have evs: "\<forall>tid op. Trip_IO tid op \<in> set evs \<longrightarrow> tid \<in> trip_ID ` set chunk"
  proof (intro allI impI)
    fix tid op assume "Trip_IO tid op \<in> set evs"
    with process_chunk_events [of "Trip_IO tid op" ops session chunk] chunk
    show "tid \<in> trip_ID ` set chunk" by auto
  qed
  show ?case
  proof (cases r)
    case (Inl e)
    from evs have "\<forall>tid op. Trip_IO tid op \<in> set evs \<longrightarrow> tid \<in> trip_ID ` set (concat (chunk # rest))"
      by (simp add: image_Un)
    with chunk Inl show ?thesis
      by simp
  next
    case (Inr chunk_features)
    let ?fs = "fs\<lparr>checkpoint_file := Some (features @ chunk_features),
                log := log fs @ evs @ [Checkpoint_Write (features @ chunk_features)] @
                       (if i < total_chunks then [Chunk_Delay 2] else [])\<rparr>"
    from Cons.IH [of "i + 1" "features @ chunk_features" ?fs] obtain new
      where new: "log (snd (chunk_loop ops session total_chunks (i + 1) rest
                    (features @ chunk_features) ?fs)) = log ?fs @ new"
        and ids: "\<forall>tid op. Trip_IO tid op \<in> set new \<longrightarrow> tid \<in> trip_ID ` set (concat rest)"
      by blast
    let ?new = "evs @ [Checkpoint_Write (features @ chunk_features)] @
                (if i < total_chunks then [Chunk_Delay 2] else []) @ new"
    from new chunk Inr
    have "log (snd (chunk_loop ops session total_chunks i (chunk # rest) features fs)) = log fs @ ?new"
      by simp
    moreover from ids evs
    have "\<forall>tid op. Trip_IO tid op \<in> set ?new \<longrightarrow> tid \<in> trip_ID ` set (concat (chunk # rest))"
      by (auto simp add: image_Un)
    ultimately show ?thesis
      by blast
  qed
qed

lemma process_trips_log:
  "\<exists>new. log (snd (process_trips ops chunk_size session trips_data fs)) = log fs @ new \<and>
         (\<forall>tid op. Trip_IO tid op \<in> set new \<longrightarrow>
            tid \<in> trip_ID ` set (snd (resume fs trips_data)))"
proof (cases "chunk_size = 0")
  case True
  then show ?thesis by (simp add: process_trips_def)
next
  case False
  let ?chunks = "chunks_of chunk_size (snd (resume fs trips_data))"
  from chunk_loop_log [of ops session "length ?chunks" 1 ?chunks "fst (resume fs trips_data)" fs]
  obtain new
    where new: "log (snd (chunk_loop ops session (length ?chunks) 1 ?chunks (fst (resume fs trips_data)) fs))
             = log fs @ new"
      and ids: "\<forall>tid op. Trip_IO tid op \<in> set new \<longrightarrow> tid \<in> trip_ID ` set (concat ?chunks)"
    by blast
  from chunks_of_rows [of chunk_size "snd (resume fs trips_data)"]
  have "trip_ID ` set (concat ?chunks) \<subseteq> trip_ID ` set (snd (resume fs trips_data))"
    by (rule image_mono)
  with ids have "\<forall>tid op. Trip_IO tid op \<in> set new \<longrightarrow>
      tid \<in> trip_ID ` set (snd (resume fs trips_data))"
    by blast
  with new False show ?thesis
    by (simp add: process_trips_def)
qed

lemma main_log:
  "\<exists>new. log (snd (main ops chunk_size session df fs)) = log fs @ new \<and>
         (\<forall>tid op. Trip_IO tid op \<in> set new \<longrightarrow> tid \<in> trip_ID ` set (snd (resume fs df)))"
proof -
  obtain r fs1 where run: "process_trips ops chunk_size session df fs = (r, fs1)"
    by (cases "process_trips ops chunk_size session df fs")
  from process_trips_log [of ops chunk_size session df fs] run obtain new
    where new: "log fs1 = log fs @ new"
      and ids: "\<forall>tid op. Trip_IO tid op \<in> set new \<longrightarrow> tid \<in> trip_ID ` set (snd (resume fs df))"
    by auto
  show ?thesis
  proof (cases r)
    case (Inl e)
    with run new ids show ?thesis by (auto simp add: main_def)
  next
    case (Inr features)
    show ?thesis
    proof (cases "checkpoint_file fs1 = None")
      case True
      with run Inr new have "log (snd (main ops chunk_size session df fs)) =
          log fs @ (new @ [Output_Write features])"
        by (simp add: main_def)
      moreover from ids have "\<forall>tid op. Trip_IO tid op \<in> set (new @ [Output_Write features]) \<longrightarrow>
          tid \<in> trip_ID ` set (snd (resume fs df))"
        by auto
      ultimately show ?thesis by blast
    next
      case False
      with run Inr new have "log (snd (main ops chunk_size session df fs)) =
          log fs @ (new @ [Output_Write features, Checkpoint_Remove])"
        by (simp add: main_def)
      moreover from ids
      have "\<forall>tid op. Trip_IO tid op \<in> set (new @ [Output_Write features, Checkpoint_Remove]) \<longrightarrow>
          tid \<in> trip_ID ` set (snd (resume fs df))"
        by auto
      ultimately show ?thesis by blast
    qed
  qed
qed

text \<open>
  Claim C5. When the checkpoint file exists on startup, the rows left to do are the rows
  of the trip table whose identifier is not the identifier of a Feature in the file, and
  every operation of a fetch that the run adds to the log belongs to such a row: no
  request is issued for a trip that the checkpoint already holds.
\<close>

theorem resume_skips_completed_trips:
  assumes "checkpoint_file fs = Some existing"
  shows "snd (resume fs df) = filter (\<lambda>row. trip_ID row \<notin> tripId ` set existing) df \<and>
         (\<exists>new. log (snd (main ops chunk_size session df fs)) = log fs @ new \<and>
            (\<forall>tid op. Trip_IO tid op \<in> set new \<longrightarrow>
               tid \<notin> tripId ` set existing \<and> tid \<in> trip_ID ` set df))"
proof -
  from assms have left: "snd (resume fs df) = filter (\<lambda>row. trip_ID row \<notin> tripId ` set existing) df"
    by (simp add: resume_def)
  from main_log [of ops chunk_size session df fs] obtain new
    where new: "log (snd (main ops chunk_size session df fs)) = log fs @ new"
      and ids: "\<forall>tid op. Trip_IO tid op \<in> set new \<longrightarrow> tid \<in> trip_ID ` set (snd (resume fs df))"
    by blast
  have "trip_ID ` set (snd (resume fs df)) \<subseteq> trip_ID ` set df - tripId ` set existing"
    unfolding left by auto
  with ids
  have "\<forall>tid op. Trip_IO tid op \<in> set new \<longrightarrow> tid \<notin> tripId ` set existing \<and> tid \<in> trip_ID ` set df"
    by blast
  with left new show ?thesis
    by blast
qed

theorem resume_skips_completed_trips_witness:
  "snd (resume
     \<lparr>checkpoint_file = Some
        [\<lparr>coordinates = [(0, 0), (1, 1)], duration = 0, distance = 0, average_speed = 0,
          tripId = 1, times = [0, 100]\<rparr>,
         \<lparr>coordinates = [(0, 0), (1, 1)], duration = 0, distance = 0, average_speed = 0,
          tripId = 2, times = [0, 100]\<rparr>],
      output_file = None, log = []\<rparr>
     [\<lparr>trip_ID = 1, pickup_location_latitude = Some 0, pickup_location_longitude = Some 0,
       dropoff_location_latitude = Some 1, dropoff_location_longitude = Some 1,
       start_time_local = 0, end_time_local = 100\<rparr>,
      \<lparr>trip_ID = 2, pickup_location_latitude = Some 0, pickup_location_longitude = Some 0,
       dropoff_location_latitude = Some 1, dropoff_location_longitude = Some 1,
       start_time_local = 0, end_time_local = 100\<rparr>,
      \<lparr>trip_ID = 3, pickup_location_latitude = Some 0, pickup_location_longitude = Some 0,
       dropoff_location_latitude = Some 1, dropoff_location_longitude = Some 1,
       start_time_local = 0, end_time_local = 100\<rparr>]) =
     [\<lparr>trip_ID = 3, pickup_location_latitude = Some 0, pickup_location_longitude = Some 0,
       dropoff_location_latitude = Some 1, dropoff_location_longitude = Some 1,
       start_time_local = 0, end_time_local = 100\<rparr>] \<and>
   log (snd (main unrounded CHUNK_SIZE
        (\<lambda>row k. Response 200 \<lparr>code = ''NoRoute'', routes = []\<rparr>)
        [\<lparr>trip_ID = 1, pickup_location_latitude = Some 0, pickup_location_longitude = Some 0,
          dropoff_location_latitude = Some 1, dropoff_location_longitude = Some 1,
          start_time_local = 0, end_time_local = 100\<rparr>,
         \<lparr>trip_ID = 2, pickup_location_latitude = Some 0, pickup_location_longitude = Some 0,
          dropoff_location_latitude = Some 1, dropoff_location_longitude = Some 1,
          start_time_local = 0, end_time_local = 100\<rparr>,
         \<lparr>trip_ID = 3, pickup_location_latitude = Some 0, pickup_location_longitude = Some 0,
          dropoff_location_latitude = Some 1, dropoff_location_longitude = Some 1,
          start_time_local = 0, end_time_local = 100\<rparr>]
        \<lparr>checkpoint_file = Some
           [\<lparr>coordinates = [(0, 0), (1, 1)], duration = 0, distance = 0, average_speed = 0,
             tripId = 1, times = [0, 100]\<rparr>,
            \<lparr>coordinates = [(0, 0), (1, 1)], duration = 0, distance = 0, average_speed = 0,
             tripId = 2, times = [0, 100]\<rparr>],
         output_file = None, log = []\<rparr>)) =
     [Trip_IO 3 (Get 0 0 1 1),
      Checkpoint_Write
        [\<lparr>coordinates = [(0, 0), (1, 1)], duration = 0, distance = 0, average_speed = 0,
          tripId = 1, times = [0, 100]\<rparr>,
         \<lparr>coordinates = [(0, 0), (1, 1)], duration = 0, distance = 0, average_speed = 0,
          tripId = 2, times = [0, 100]\<rparr>,
         \<lparr>coordinates = [(0, 0), (1, 1)], duration = 0, distance = 0, average_speed = 0,
          tripId = 3, times = [0, 100]\<rparr>],
      Output_Write
        [\<lparr>coordinates = [(0, 0), (1, 1)], duration = 0, distance = 0, average_speed = 0,
          tripId = 1, times = [0, 100]\<rparr>,
         \<lparr>coordinates = [(0, 0), (1, 1)], duration = 0, distance = 0, average_speed = 0,
          tripId = 2, times = [0, 100]\<rparr>,
         \<lparr>coordinates = [(0, 0), (1, 1)], duration = 0, distance = 0, average_speed = 0,
          tripId = 3, times = [0, 100]\<rparr>],
      Checkpoint_Remove]"
proof -
  let ?session = "\<lambda>(row::trip) (k::nat). Response 200 \<lparr>code = ''NoRoute'', routes = []\<rparr>"
  let ?existing = "[\<lparr>coordinates = [(0, 0), (1, 1)], duration = 0, distance = 0, average_speed = 0,
          tripId = 1, times = [0, 100]\<rparr>,
         \<lparr>coordinates = [(0, 0), (1, 1)], duration = 0, distance = 0, average_speed = 0,
          tripId = 2, times = [0, 100]\<rparr>]"
  let ?fs = "\<lparr>checkpoint_file = Some ?existing, output_file = None, log = []\<rparr>"
  let ?df = "[\<lparr>trip_ID = 1, pickup_location_latitude = Some 0, pickup_location_longitude = Some 0,
       dropoff_location_latitude = Some 1, dropoff_location_longitude = Some 1,
       start_time_local = 0, end_time_local = 100\<rparr>,
      \<lparr>trip_ID = 2, pickup_location_latitude = Some 0, pickup_location_longitude = Some 0,
       dropoff_location_latitude = Some 1, dropoff_location_longitude = Some 1,
       start_time_local = 0, end_time_local = 100\<rparr>,
      \<lparr>trip_ID = 3, pickup_location_latitude = Some 0, pickup_location_longitude = Some 0,
       dropoff_location_latitude = Some 1, dropoff_location_longitude = Some 1,
       start_time_local = 0, end_time_local = 100\<rparr>]"
  have start: "checkpoint_file ?fs = Some ?existing"
    by simp
  let ?all = "[\<lparr>coordinates = [(0, 0), (1, 1)], duration = 0, distance = 0, average_speed = 0,
          tripId = 1, times = [0, 100]\<rparr>,
         \<lparr>coordinates = [(0, 0), (1, 1)], duration = 0, distance = 0, average_speed = 0,
          tripId = 2, times = [0, 100]\<rparr>,
         \<lparr>coordinates = [(0, 0), (1, 1)], duration = 0, distance = 0, average_speed = 0,
          tripId = 3, times = [0, 100]\<rparr>]"
  have run: "log (snd (main unrounded CHUNK_SIZE ?session ?df ?fs)) =
      [Trip_IO 3 (Get 0 0 1 1), Checkpoint_Write ?all, Output_Write ?all, Checkpoint_Remove]"
    by (simp add: main_def process_trips_def resume_def CHUNK_SIZE_def chunks_of_def
          range_step_def upt_rec process_chunk_def process_trip_def trip_fetch_def
          get_osrm_route_answered make_feature_def interpolate_times_defined strftime_def unrounded_simps
          direct_line_def)
  from resume_skips_completed_trips [OF start, of ?df unrounded CHUNK_SIZE ?session] run
  show ?thesis
    by simp
qed


section \<open>Checkpoints and pauses of a run\<close>

lemma process_chunk_only_trip_io:
  "filter (\<lambda>ev. \<not> is_trip_io ev) (snd (process_chunk ops session chunk_data)) = []"
  unfolding filter_empty_conv by (auto dest!: process_chunk_events)

lemma chunk_loop_completed_step:
  assumes "chunk_loop ops session total_chunks i (chunk # rest) features fs = (Inr result, fs')"
  shows "\<exists>chunk_features evs.
           process_chunk ops session chunk = (Inr chunk_features, evs) \<and>
           chunk_loop ops session total_chunks (i + 1) rest (features @ chunk_features)
             (fs\<lparr>checkpoint_file := Some (features @ chunk_features),
                 log := log fs @ evs @ [Checkpoint_Write (features @ chunk_features)] @
                        (if i < total_chunks then [Chunk_Delay 2] else [])\<rparr>) = (Inr result, fs')"
  using assms by (auto split: prod.splits sum.splits)

lemma five_rows_in_chunks_of_two:
  assumes "length rows = 5"
  shows "\<exists>t1 t2 t3 t4 t5. rows = [t1, t2, t3, t4, t5] \<and>
           chunks_of 2 rows = [[t1, t2], [t3, t4], [t5]]"
proof -
  from assms obtain t1 t2 t3 t4 t5 where rows: "rows = [t1, t2, t3, t4, t5]"
    by (auto simp add: length_Suc_conv eval_nat_numeral)
  have "chunks_of 2 [t1, t2, t3, t4, t5] = [[t1, t2], [t3, t4], [t5]]"
    by (simp add: chunks_of_def range_step_def upt_rec)
  with rows show ?thesis
    by blast
qed

text \<open>
  Claim C7. Take a run with chunk size 2 in which five trips are left to do (all the
  trips of the table when there is no checkpoint file on startup) and which ends without
  an exception. The chunks are the first two, the next two and the last of these trips,
  and the run does exactly this, in this order: the operations of the first chunk, a
  checkpoint write, a pause of 2 seconds; the operations of the second chunk, a checkpoint
  write, a pause of 2 seconds; the operations of the third chunk, a checkpoint write; the
  write of the output, with the collection of the last checkpoint; the removal of the
  checkpoint file. The operations of a chunk are operations of fetches only. So there are
  three checkpoint writes before the output is written, each right after the operations
  of its chunk and holding the Features up to that chunk; a pause follows the first and
  the second of them, where a chunk remains, and none the third; and there is no
  checkpoint file at the end.
\<close>

theorem five_trips_chunk_size_two:
  assumes "length (snd (resume fs df)) = 5"
    and "main ops 2 session df fs = (Inr (), fs')"
  shows "\<exists>c1 c2 c3.
           fst (process_chunk ops session (take 2 (snd (resume fs df)))) = Inr c1 \<and>
           fst (process_chunk ops session (take 2 (drop 2 (snd (resume fs df))))) = Inr c2 \<and>
           fst (process_chunk ops session (drop 4 (snd (resume fs df)))) = Inr c3 \<and>
           log fs' =
             log fs @
             snd (process_chunk ops session (take 2 (snd (resume fs df)))) @
             [Checkpoint_Write (fst (resume fs df) @ c1), Chunk_Delay 2] @
             snd (process_chunk ops session (take 2 (drop 2 (snd (resume fs df))))) @
             [Checkpoint_Write (fst (resume fs df) @ c1 @ c2), Chunk_Delay 2] @
             snd (process_chunk ops session (drop 4 (snd (resume fs df)))) @
             [Checkpoint_Write (fst (resume fs df) @ c1 @ c2 @ c3),
              Output_Write (fst (resume fs df) @ c1 @ c2 @ c3),
              Checkpoint_Remove] \<and>
           list_all is_trip_io
             (snd (process_chunk ops session (take 2 (snd (resume fs df)))) @
              snd (process_chunk ops session (take 2 (drop 2 (snd (resume fs df))))) @
              snd (process_chunk ops session (drop 4 (snd (resume fs df))))) \<and>
           checkpoint_file fs' = None \<and>
           output_file fs' = Some (fst (resume fs df) @ c1 @ c2 @ c3)"
proof -
  let ?init = "fst (resume fs df)"
  from five_rows_in_chunks_of_two [OF assms(1)] obtain t1 t2 t3 t4 t5
    where rows: "snd (resume fs df) = [t1, t2, t3, t4, t5]"
      and chunks: "chunks_of 2 (snd (resume fs df)) = [[t1, t2], [t3, t4], [t5]]"
    by blast
  obtain r fs1 where trips: "process_trips ops 2 session df fs = (r, fs1)"
    by (cases "process_trips ops 2 session df fs")
  with assms(2) obtain result where r: "r = Inr result"
    by (cases r) (auto simp add: main_def)
  have total: "length [[t1, t2], [t3, t4], [t5]] = 3"
    by simp
  from trips r
  have "chunk_loop ops session (length (chunks_of 2 (snd (resume fs df)))) 1
          (chunks_of 2 (snd (resume fs df))) ?init fs = (Inr result, fs1)"
    by (simp add: process_trips_def)
  then have loop1: "chunk_loop ops session 3 1 [[t1, t2], [t3, t4], [t5]] ?init fs = (Inr result, fs1)"
    by (simp only: chunks total)
  from chunk_loop_completed_step [OF loop1] obtain c1 e1
    where p1: "process_chunk ops session [t1, t2] = (Inr c1, e1)"
      and loop2: "chunk_loop ops session 3 2 [[t3, t4], [t5]] (?init @ c1)
             (fs\<lparr>checkpoint_file := Some (?init @ c1),
                 log := log fs @ e1 @ [Checkpoint_Write (?init @ c1)] @ [Chunk_Delay 2]\<rparr>)
           = (Inr result, fs1)"
    by (auto simp del: chunk_loop.simps simp add: eval_nat_numeral)
  from chunk_loop_completed_step [OF loop2] obtain c2 e2
    where p2: "process_chunk ops session [t3, t4] = (Inr c2, e2)"
      and loop3: "chunk_loop ops session 3 3 [[t5]] ((?init @ c1) @ c2)
             (fs\<lparr>checkpoint_file := Some ((?init @ c1) @ c2),
                 log := (log fs @ e1 @ [Checkpoint_Write (?init @ c1)] @ [Chunk_Delay 2]) @
                        e2 @ [Checkpoint_Write ((?init @ c1) @ c2)] @ [Chunk_Delay 2]\<rparr>)
           = (Inr result, fs1)"
    by (auto simp del: chunk_loop.simps simp add: eval_nat_numeral)
  from chunk_loop_completed_step [OF loop3] obtain c3 e3
    where p3: "process_chunk ops session [t5] = (Inr c3, e3)"
      and result: "result = ((?init @ c1) @ c2) @ c3"
      and fs1: "fs1 = fs\<lparr>checkpoint_file := Some (((?init @ c1) @ c2) @ c3),
                 log := ((log fs @ e1 @ [Checkpoint_Write (?init @ c1)] @ [Chunk_Delay 2]) @
                        e2 @ [Checkpoint_Write ((?init @ c1) @ c2)] @ [Chunk_Delay 2]) @
                        e3 @ [Checkpoint_Write (((?init @ c1) @ c2) @ c3)]\<rparr>"
    by auto
  from rows have parts: "take 2 (snd (resume fs df)) = [t1, t2]"
    "take 2 (drop 2 (snd (resume fs df))) = [t3, t4]" "drop 4 (snd (resume fs df)) = [t5]"
    by simp_all
  have quiet: "list_all is_trip_io (e1 @ e2 @ e3)"
    using process_chunk_only_trip_io [of ops session "[t1, t2]"]
      process_chunk_only_trip_io [of ops session "[t3, t4]"]
      process_chunk_only_trip_io [of ops session "[t5]"] p1 p2 p3
    by (auto simp add: filter_empty_conv list_all_iff)
  from assms(2) trips r fs1 result
  have fs': "fs' = fs1\<lparr>checkpoint_file := None, output_file := Some result,
                       log := log fs1 @ [Output_Write result, Checkpoint_Remove]\<rparr>"
    by (simp add: main_def)
  with fs1 result
  have "log fs' =
          log fs @ e1 @ [Checkpoint_Write (?init @ c1), Chunk_Delay 2] @
          e2 @ [Checkpoint_Write (?init @ c1 @ c2), Chunk_Delay 2] @
          e3 @ [Checkpoint_Write (?init @ c1 @ c2 @ c3), Output_Write (?init @ c1 @ c2 @ c3),
                Checkpoint_Remove]"
    by simp
  moreover from fs' result
  have "checkpoint_file fs' = None" and "output_file fs' = Some (?init @ c1 @ c2 @ c3)"
    by simp_all
  ultimately show ?thesis
    using p1 p2 p3 quiet by (simp add: parts)
qed

theorem five_trips_chunk_size_two_witness:
  "length (snd (resume \<lparr>checkpoint_file = None, output_file = None, log = []\<rparr>
     (map (\<lambda>i. \<lparr>trip_ID = i, pickup_location_latitude = Some 0,
                   pickup_location_longitude = Some 0, dropoff_location_latitude = Some 1,
                   dropoff_location_longitude = Some 1, start_time_local = 0,
                   end_time_local = 100\<rparr>) [1..<6]))) = 5 \<and>
   main unrounded 2 (\<lambda>row k. Response 200 \<lparr>code = ''NoRoute'', routes = []\<rparr>)
     (map (\<lambda>i. \<lparr>trip_ID = i, pickup_location_latitude = Some 0,
                   pickup_location_longitude = Some 0, dropoff_location_latitude = Some 1,
                   dropoff_location_longitude = Some 1, start_time_local = 0,
                   end_time_local = 100\<rparr>) [1..<6])
     \<lparr>checkpoint_file = None, output_file = None, log = []\<rparr> =
     (Inr (),
      \<lparr>checkpoint_file = None,
       output_file = Some (map (\<lambda>i. \<lparr>coordinates = [(0, 0), (1, 1)], duration = 0, distance = 0,
                          average_speed = 0, tripId = i, times = [0, 100]\<rparr>) [1..<6]),
       log = [Trip_IO 1 (Get 0 0 1 1), Trip_IO 2 (Get 0 0 1 1),
              Checkpoint_Write (map (\<lambda>i. \<lparr>coordinates = [(0, 0), (1, 1)], duration = 0, distance = 0,
                          average_speed = 0, tripId = i, times = [0, 100]\<rparr>) [1..<3]),
              Chunk_Delay 2,
              Trip_IO 3 (Get 0 0 1 1), Trip_IO 4 (Get 0 0 1 1),
              Checkpoint_Write (map (\<lambda>i. \<lparr>coordinates = [(0, 0), (1, 1)], duration = 0, distance = 0,
                          average_speed = 0, tripId = i, times = [0, 100]\<rparr>) [1..<5]),
              Chunk_Delay 2,
              Trip_IO 5 (Get 0 0 1 1),
              Checkpoint_Write (map (\<lambda>i. \<lparr>coordinates = [(0, 0), (1, 1)], duration = 0, distance = 0,
                          average_speed = 0, tripId = i, times = [0, 100]\<rparr>) [1..<6]),
              Output_Write (map (\<lambda>i. \<lparr>coordinates = [(0, 0), (1, 1)], duration = 0, distance = 0,
                          average_speed = 0, tripId = i, times = [0, 100]\<rparr>) [1..<6]),
              Checkpoint_Remove]\<rparr>)"
proof -
  let ?session = "\<lambda>(row::trip) (k::nat). Response 200 \<lparr>code = ''NoRoute'', routes = []\<rparr>"
  let ?df = "map (\<lambda>i. \<lparr>trip_ID = i, pickup_location_latitude = Some 0,
                   pickup_location_longitude = Some 0, dropoff_location_latitude = Some 1,
                   dropoff_location_longitude = Some 1, start_time_local = 0,
                   end_time_local = 100\<rparr>) [1..<6]"
  let ?fresh = "\<lparr>checkpoint_file = None, output_file = None, log = []\<rparr>"
  have left: "length (snd (resume ?fresh ?df)) = 5"
    by (simp add: resume_def)
  have trip: "process_trip unrounded ?session
        \<lparr>trip_ID = i, pickup_location_latitude = Some 0,
         pickup_location_longitude = Some 0, dropoff_location_latitude = Some 1,
         dropoff_location_longitude = Some 1, start_time_local = 0,
         end_time_local = 100\<rparr> =
      (Inr (Some \<lparr>coordinates = [(0, 0), (1, 1)], duration = 0, distance = 0,
                   average_speed = 0, tripId = i, times = [0, 100]\<rparr>),
       [Trip_IO i (Get 0 0 1 1)])" for i
    by (simp add: process_trip_def trip_fetch_def get_osrm_route_answered make_feature_def
          interpolate_times_defined strftime_def unrounded_simps direct_line_def upt_rec)
  have run: "main unrounded 2 ?session ?df ?fresh =
     (Inr (),
      \<lparr>checkpoint_file = None,
       output_file = Some (map (\<lambda>i. \<lparr>coordinates = [(0, 0), (1, 1)], duration = 0, distance = 0,
                          average_speed = 0, tripId = i, times = [0, 100]\<rparr>) [1..<6]),
       log = [Trip_IO 1 (Get 0 0 1 1), Trip_IO 2 (Get 0 0 1 1),
              Checkpoint_Write (map (\<lambda>i. \<lparr>coordinates = [(0, 0), (1, 1)], duration = 0, distance = 0,
                          average_speed = 0, tripId = i, times = [0, 100]\<rparr>) [1..<3]),
              Chunk_Delay 2,
              Trip_IO 3 (Get 0 0 1 1), Trip_IO 4 (Get 0 0 1 1),
              Checkpoint_Write (map (\<lambda>i. \<lparr>coordinates = [(0, 0), (1, 1)], duration = 0, distance = 0,
                          average_speed = 0, tripId = i, times = [0, 100]\<rparr>) [1..<5]),
              Chunk_Delay 2,
              Trip_IO 5 (Get 0 0 1 1),
              Checkpoint_Write (map (\<lambda>i. \<lparr>coordinates = [(0, 0), (1, 1)], duration = 0, distance = 0,
                          average_speed = 0, tripId = i, times = [0, 100]\<rparr>) [1..<6]),
              Output_Write (map (\<lambda>i. \<lparr>coordinates = [(0, 0), (1, 1)], duration = 0, distance = 0,
                          average_speed = 0, tripId = i, times = [0, 100]\<rparr>) [1..<6]),
              Checkpoint_Remove]\<rparr>)"
    by (simp add: main_def process_trips_def resume_def chunks_of_def range_step_def upt_rec
          process_chunk_def trip)
  from five_trips_chunk_size_two [OF left run] left run show ?thesis
    by (simp del: upt_Suc)
qed

section \<open>A fetch that times out on every attempt\<close>

lemma timed_out_run:
  assumes "\<forall>k. session k = Timeout"
  shows "get_osrm_route session a b c d 0 =
           (Bare_List [(a, b), (c, d)],
            [Get a b c d, Sleep 1, Get a b c d, Sleep 2, Get a b c d, Sleep 4,
             Get a b c d, Sleep 8, Get a b c d, Sleep 16, Get a b c d])"
proof -
  have step: "get_osrm_route session a b c d k =
     (if k < MAX_RETRIES
      then after [Get a b c d, Sleep (wait_time k)] (get_osrm_route session a b c d (k + 1))
      else (Bare_List (direct_line a b c d), [Get a b c d]))" for k
    using assms by (simp add: get_osrm_route_timeout)
  have 5: "get_osrm_route session a b c d 5 = (Bare_List [(a, b), (c, d)], [Get a b c d])"
    by (subst step) (simp add: MAX_RETRIES_def direct_line_def)
  have 4: "get_osrm_route session a b c d 4 =
      (Bare_List [(a, b), (c, d)], [Get a b c d, Sleep 16, Get a b c d])"
    by (subst step) (simp add: MAX_RETRIES_def after_def wait_time_values 5)
  have 3: "get_osrm_route session a b c d 3 =
      (Bare_List [(a, b), (c, d)], [Get a b c d, Sleep 8, Get a b c d, Sleep 16, Get a b c d])"
    by (subst step) (simp add: MAX_RETRIES_def after_def wait_time_values 4)
  have 2: "get_osrm_route session a b c d 2 =
      (Bare_List [(a, b), (c, d)],
       [Get a b c d, Sleep 4, Get a b c d, Sleep 8, Get a b c d, Sleep 16, Get a b c d])"
    by (subst step) (simp add: MAX_RETRIES_def after_def wait_time_values 3)
  have 1: "get_osrm_route session a b c d (Suc 0) =
      (Bare_List [(a, b), (c, d)],
       [Get a b c d, Sleep 2, Get a b c d, Sleep 4, Get a b c d, Sleep 8,
        Get a b c d, Sleep 16, Get a b c d])"
    by (subst step)
      (simp add: MAX_RETRIES_def after_def wait_time_values 2 [unfolded numeral_2_eq_2])
  show ?thesis
    by (subst step) (simp add: MAX_RETRIES_def after_def wait_time_values 1)
qed

text \<open>
  Claim C1, on the code. The trip table holds a trip without pickup latitude, a trip
  whose every request times out, and a trip answered at once with a route of three
  points; there is no checkpoint file. The fetch of the second trip returns, after its
  six requests, the bare list of the two end points and not a dictionary; line 91 then
  raises, and the run ends with that exception, having written neither a checkpoint nor
  the output file. This is so however the arithmetic of the timestamps rounds.
\<close>

theorem timed_out_trip_ends_the_run:
  "fst (get_osrm_route (\<lambda>k. Timeout) 6 5 8 7 0) = Bare_List [(6, 5), (8, 7)] \<and>
   main ops CHUNK_SIZE
     (\<lambda>row k. if trip_ID row = 2 then Timeout
              else Response 200
                \<lparr>code = ''Ok'',
                 routes = [\<lparr>coordinates = [(0, 0), (1, 1), (2, 2)], duration = 60,
                            distance = 300\<rparr>]\<rparr>)
     [\<lparr>trip_ID = 1, pickup_location_latitude = None, pickup_location_longitude = Some 0,
       dropoff_location_latitude = Some 1, dropoff_location_longitude = Some 1,
       start_time_local = 0, end_time_local = 100\<rparr>,
      \<lparr>trip_ID = 2, pickup_location_latitude = Some 5, pickup_location_longitude = Some 6,
       dropoff_location_latitude = Some 7, dropoff_location_longitude = Some 8,
       start_time_local = 0, end_time_local = 100\<rparr>,
      \<lparr>trip_ID = 3, pickup_location_latitude = Some 0, pickup_location_longitude = Some 0,
       dropoff_location_latitude = Some 2, dropoff_location_longitude = Some 2,
       start_time_local = 0, end_time_local = 100\<rparr>]
     \<lparr>checkpoint_file = None, output_file = None, log = []\<rparr> =
   (Inl TypeError,
    \<lparr>checkpoint_file = None, output_file = None,
     log = [Trip_IO 2 (Get 6 5 8 7), Trip_IO 2 (Sleep 1), Trip_IO 2 (Get 6 5 8 7),
            Trip_IO 2 (Sleep 2), Trip_IO 2 (Get 6 5 8 7), Trip_IO 2 (Sleep 4),
            Trip_IO 2 (Get 6 5 8 7), Trip_IO 2 (Sleep 8), Trip_IO 2 (Get 6 5 8 7),
            Trip_IO 2 (Sleep 16), Trip_IO 2 (Get 6 5 8 7), Trip_IO 3 (Get 0 0 2 2)]\<rparr>)"
  by (simp add: timed_out_run main_def process_trips_def resume_def CHUNK_SIZE_def
        chunks_of_def range_step_def upt_rec process_chunk_def process_trip_def trip_fetch_def
        get_osrm_route_answered make_feature_def interpolate_times_defined strftime_def)

end
